theory Spec2Isabelle
  imports Complex_Main "HOL-Library.Word"
begin

text \<open>
  A model of the swing scanner: the indicator calculator and the signal validator of
  \<^verbatim>\<open>backend/backtest_engine.py\<close>, the data fetcher of \<^verbatim>\<open>backend/smart_api_client.py\<close> and the
  batch loops of \<^verbatim>\<open>backend/main.py\<close> and \<^verbatim>\<open>app.py\<close>, followed by the properties the
  specification states about them. Functions keep the names of the source. An exception is
  a value: a function that can raise returns \<open>exn + 'a\<close>, with \<open>Inl\<close> for the exception.
\<close>

section \<open>Python floats\<close>

text \<open>
  The prices and indicator values of \<^verbatim>\<open>backtest_engine.py\<close> are binary64 floats. A finite
  binary64 value is the rational it denotes; the results of \<^verbatim>\<open>-\<close>, \<^verbatim>\<open>/\<close> and \<^verbatim>\<open>*\<close> are rounded
  to the nearest binary64 value, ties to even, as IEEE 754 prescribes. Division by zero gives
  an infinity or NaN (the operands are numpy scalars, which warn and do not raise), and a
  comparison with NaN is false. The negative zero is not represented: \<open>Finite 0\<close> stands
  for \<^verbatim>\<open>+0.0\<close>.
\<close>

datatype float64 = Finite rat | PosInf | NegInf | NaN

fun bit_length :: "nat \<Rightarrow> nat" where
  "bit_length n = (if n = 0 then 0 else Suc (bit_length (n div 2)))"

definition pow2 :: "int \<Rightarrow> rat" where
  "pow2 e = (if 0 \<le> e then 2 ^ nat e else 1 / 2 ^ nat (- e))"

definition ilog2 :: "rat \<Rightarrow> int" where
  \<comment> \<open>\<open>\<lfloor>log\<^sub>2 x\<rfloor>\<close> for \<open>0 < x\<close>\<close>
  "ilog2 x =
     (if 1 \<le> x then int (bit_length (nat \<lfloor>x\<rfloor>)) - 1
      else - int (bit_length (nat (\<lceil>1 / x\<rceil> - 1))))"

definition round_half_even :: "rat \<Rightarrow> int" where
  "round_half_even x =
     (let f = \<lfloor>x\<rfloor>; r = x - of_int f
      in if r < 1 / 2 then f
         else if 1 / 2 < r then f + 1
         else if even f then f else f + 1)"

definition round_double :: "rat \<Rightarrow> float64" where
  \<comment> \<open>53 significant bits; exponent at least \<open>-1022\<close> (subnormals); overflow to infinity\<close>
  "round_double x =
     (if x = 0 then Finite 0
      else
        let e = max (ilog2 \<bar>x\<bar>) (- 1022);
            u = pow2 (e - 52);
            y = of_int (round_half_even (\<bar>x\<bar> / u)) * u
        in if pow2 1024 \<le> y then (if 0 < x then PosInf else NegInf)
           else Finite (if 0 < x then y else - y))"

fun fsub :: "float64 \<Rightarrow> float64 \<Rightarrow> float64" where
  "fsub (Finite a) (Finite b) = round_double (a - b)"
| "fsub NaN _ = NaN"
| "fsub _ NaN = NaN"
| "fsub PosInf PosInf = NaN"
| "fsub NegInf NegInf = NaN"
| "fsub PosInf _ = PosInf"
| "fsub NegInf _ = NegInf"
| "fsub (Finite a) PosInf = NegInf"
| "fsub (Finite a) NegInf = PosInf"

fun fabs :: "float64 \<Rightarrow> float64" where
  "fabs (Finite a) = Finite \<bar>a\<bar>"
| "fabs PosInf = PosInf"
| "fabs NegInf = PosInf"
| "fabs NaN = NaN"

fun fdiv :: "float64 \<Rightarrow> float64 \<Rightarrow> float64" where
  "fdiv (Finite a) (Finite b) =
     (if b = 0 then (if a = 0 then NaN else if 0 < a then PosInf else NegInf)
      else round_double (a / b))"
| "fdiv NaN _ = NaN"
| "fdiv _ NaN = NaN"
| "fdiv (Finite a) PosInf = Finite 0"
| "fdiv (Finite a) NegInf = Finite 0"
| "fdiv PosInf (Finite b) = (if 0 \<le> b then PosInf else NegInf)"
| "fdiv NegInf (Finite b) = (if 0 \<le> b then NegInf else PosInf)"
| "fdiv PosInf _ = NaN"
| "fdiv NegInf _ = NaN"

fun fmul :: "float64 \<Rightarrow> float64 \<Rightarrow> float64" where
  "fmul (Finite a) (Finite b) = round_double (a * b)"
| "fmul NaN _ = NaN"
| "fmul _ NaN = NaN"
| "fmul PosInf (Finite b) = (if b = 0 then NaN else if 0 < b then PosInf else NegInf)"
| "fmul NegInf (Finite b) = (if b = 0 then NaN else if 0 < b then NegInf else PosInf)"
| "fmul (Finite a) PosInf = (if a = 0 then NaN else if 0 < a then PosInf else NegInf)"
| "fmul (Finite a) NegInf = (if a = 0 then NaN else if 0 < a then NegInf else PosInf)"
| "fmul PosInf PosInf = PosInf"
| "fmul NegInf NegInf = PosInf"
| "fmul PosInf NegInf = NegInf"
| "fmul NegInf PosInf = NegInf"

fun flt :: "float64 \<Rightarrow> float64 \<Rightarrow> bool" where
  "flt (Finite a) (Finite b) = (a < b)"
| "flt NaN _ = False"
| "flt _ NaN = False"
| "flt _ NegInf = False"
| "flt PosInf _ = False"
| "flt NegInf _ = True"
| "flt (Finite a) PosInf = True"

definition fgt :: "float64 \<Rightarrow> float64 \<Rightarrow> bool" where
  "fgt a b = flt b a"

definition float_literal :: "rat \<Rightarrow> float64" where
  \<comment> \<open>a decimal literal of the source denotes the nearest binary64 value\<close>
  "float_literal q = round_double q"

definition format_2f :: "float64 \<Rightarrow> int option" where
  \<comment> \<open>\<^verbatim>\<open>f'{x:.2f}'\<close> as a number of hundredths: the exact value, correctly rounded\<close>
  "format_2f x = (case x of Finite a \<Rightarrow> Some (round_half_even (a * 100)) | _ \<Rightarrow> None)"

section \<open>Data model\<close>

text \<open>
  A calendar date is its day number. The \<^verbatim>\<open>date\<close> column of a price series holds
  timestamps (\<^verbatim>\<open>pd.to_datetime\<close> in \<^verbatim>\<open>fetch_historical_data\<close>); a null date of the
  upstream becomes \<^verbatim>\<open>NaT\<close>.
\<close>

type_synonym day = int

datatype timestamp = NaT | Timestamp day

datatype exn = KeyError string | ValueError string | TypeError string | FileNotFoundError string
  | ConnectionError string

text \<open>
  A row of the price DataFrame. The columns \<^verbatim>\<open>EMA_9\<close> and \<^verbatim>\<open>EMA_20\<close> exist only after
  \<^verbatim>\<open>calculate_indicators\<close> added them: \<open>None\<close> is the absent column, whose access raises
  \<^verbatim>\<open>KeyError\<close>. A price is a float (a null of the upstream is NaN after \<^verbatim>\<open>astype(float)\<close>), the
  volume a 64-bit integer (\<^verbatim>\<open>astype(int)\<close>).
\<close>

record bar =
  bar_date :: timestamp
  bar_open :: float64
  bar_high :: float64
  bar_low :: float64
  bar_close :: float64
  bar_volume :: "64 word"
  EMA_9 :: "float64 option"
  EMA_20 :: "float64 option"

text \<open>
  The \<^verbatim>\<open>date\<close> of a signal is a string. \<open>Iso_Z d\<close> is a string of the form
  \<^verbatim>\<open>%Y-%m-%dT%H:%M:%S.%fZ\<close>, which both \<^verbatim>\<open>datetime.strptime\<close> (with that format) and
  \<^verbatim>\<open>pd.to_datetime\<close> parse; \<open>Other_Format d\<close> is a date string \<^verbatim>\<open>pd.to_datetime\<close> parses
  and the format does not match; \<open>Unparseable s\<close> is parsed by neither.
\<close>

datatype raw_date = Iso_Z day | Other_Format day | Unparseable string

text \<open>
  A row of the signals DataFrame. A field is \<open>None\<close> when the row has no such key:
  \<^verbatim>\<open>row[k]\<close> raises \<^verbatim>\<open>KeyError\<close> then and \<^verbatim>\<open>row.get(k, d)\<close> gives the default. A number
  that one record of the signal source lacks and another has is NaN in the DataFrame.
\<close>

record signal =
  tradingsymbol :: "string option"
  date :: "raw_date option"
  ltp :: "float64 option"
  stop_loss :: "float64 option"
  next_target :: "float64 option"
  is_stage2 :: "bool option"
  is_mtf :: "bool option"
  row_note :: "string option"
  close :: "float64 option"

datatype reason =
    Insufficient_Data
  | Data_Outdated
  | Date_Error exn
  | EMA_9_below_EMA_20
  | Price_below_EMAs
  | Close_below_EMA_9
  | Too_Squeezed float64
  | Overextended float64
  | Not_Stage_2

text \<open>The dictionary \<^verbatim>\<open>validate_setup\<close> returns for a valid setup.\<close>

record trade =
  v_stop_loss :: float64
  v_target :: float64
  v_ltp :: float64
  v_close :: float64
  v_ema_9 :: float64
  v_ema_20 :: float64
  v_spread_pct :: float64
  v_is_mtf :: bool
  v_is_stage2 :: bool
  v_note :: string

datatype verdict = Invalid reason | Valid_Setup trade

fun valid :: "verdict \<Rightarrow> bool" where
  "valid (Invalid r) = False"
| "valid (Valid_Setup s) = True"

section \<open>Indicator calculator\<close>

text \<open>
  \<^verbatim>\<open>Series.ewm(span=n, adjust=False).mean()\<close> is a routine of pandas, not of this repository,
  and the binary64 values it returns depend on how pandas rounds. The model takes the
  routine as a parameter: \<open>ewm n xs i\<close> is the value at position \<open>i\<close> of the series pandas
  returns for the span \<open>n\<close> and the values \<open>xs\<close>. That series is as long as \<open>xs\<close>.
\<close>

type_synonym ewm_routine = "nat \<Rightarrow> float64 list \<Rightarrow> nat \<Rightarrow> float64"

definition ewm_mean :: "ewm_routine \<Rightarrow> nat \<Rightarrow> float64 list \<Rightarrow> float64 list" where
  "ewm_mean ewm n xs = map (ewm n xs) [0..<length xs]"

definition set_EMA_9 :: "bar list \<Rightarrow> float64 list \<Rightarrow> bar list" where
  "set_EMA_9 df vs = map2 (\<lambda>b v. b\<lparr>EMA_9 := Some v\<rparr>) df vs"

definition set_EMA_20 :: "bar list \<Rightarrow> float64 list \<Rightarrow> bar list" where
  "set_EMA_20 df vs = map2 (\<lambda>b v. b\<lparr>EMA_20 := Some v\<rparr>) df vs"

definition calculate_indicators :: "ewm_routine \<Rightarrow> bar list option \<Rightarrow> bar list option" where
  "calculate_indicators ewm df =
     (case df of
        None \<Rightarrow> None
      | Some rows \<Rightarrow>
          if length rows < 20 then Some rows
          else
            let rows1 = set_EMA_9 rows (ewm_mean ewm 9 (map bar_close rows));
                rows2 = set_EMA_20 rows1 (ewm_mean ewm 20 (map bar_close rows1))
            in Some rows2)"

section \<open>Signal validator\<close>

definition signal_date :: "signal \<Rightarrow> exn + day" where
  \<comment> \<open>\<^verbatim>\<open>pd.to_datetime(row['date']).date()\<close>, outside the \<^verbatim>\<open>try\<close>\<close>
  "signal_date row =
     (case date row of
        None \<Rightarrow> Inl (KeyError ''date'')
      | Some (Iso_Z d) \<Rightarrow> Inr d
      | Some (Other_Format d) \<Rightarrow> Inr d
      | Some (Unparseable s) \<Rightarrow> Inl (ValueError s))"

definition dt_date :: "timestamp \<Rightarrow> day option" where
  \<comment> \<open>\<^verbatim>\<open>.dt.date\<close>: \<^verbatim>\<open>NaT\<close> stays \<^verbatim>\<open>NaT\<close>, equal to no date\<close>
  "dt_date t = (case t of NaT \<Rightarrow> None | Timestamp d \<Rightarrow> Some d)"

definition timestamp_date :: "timestamp \<Rightarrow> day option" where
  \<comment> \<open>\<^verbatim>\<open>.date()\<close> of one timestamp: \<^verbatim>\<open>NaT.date()\<close> is \<^verbatim>\<open>NaT\<close> again, it does not raise\<close>
  "timestamp_date t = (case t of NaT \<Rightarrow> None | Timestamp d \<Rightarrow> Some d)"

definition days_between :: "day option \<Rightarrow> day \<Rightarrow> exn + int" where
  \<comment> \<open>\<^verbatim>\<open>(trigger_date - signal_date).days\<close>: \<^verbatim>\<open>NaT\<close> minus a date raises \<^verbatim>\<open>TypeError\<close>\<close>
  "days_between trigger_date sd =
     (case trigger_date of
        None \<Rightarrow> Inl (TypeError ''unsupported operand type(s) for -: NaTType and datetime.date'')
      | Some d \<Rightarrow> Inr (d - sd))"

definition locate_trigger :: "bar list \<Rightarrow> day \<Rightarrow> reason + bar" where
  \<comment> \<open>the \<^verbatim>\<open>try\<close> block of \<^verbatim>\<open>validate_setup\<close>; the series is not empty\<close>
  "locate_trigger df sd =
     (case filter (\<lambda>b. dt_date (bar_date b) = Some sd) df of
        [] \<Rightarrow>
          let trigger_candle = last df;
              trigger_date = timestamp_date (bar_date trigger_candle)
          in (case days_between trigger_date sd of
                Inl e \<Rightarrow> Inl (Date_Error e)
              | Inr days \<Rightarrow>
                  if 5 < \<bar>days\<bar> then Inl Data_Outdated
                  else Inr trigger_candle)
      | m # ms \<Rightarrow> Inr m)"

definition spread_pct_of :: "float64 \<Rightarrow> float64 \<Rightarrow> float64" where
  \<comment> \<open>\<^verbatim>\<open>abs(ema_9 - ema_20) / ema_20 * 100\<close>\<close>
  "spread_pct_of ema_9 ema_20 =
     fmul (fdiv (fabs (fsub ema_9 ema_20)) ema_20) (Finite 100)"

definition check_rules :: "signal \<Rightarrow> float64 \<Rightarrow> float64 \<Rightarrow> float64 \<Rightarrow> exn + verdict" where
  \<comment> \<open>the rules of \<^verbatim>\<open>validate_setup\<close>, from \<^verbatim>\<open># 1. EMA 9 > EMA 20\<close> on\<close>
  "check_rules row cl ema_9 ema_20 =
     (if \<not> fgt ema_9 ema_20 then Inr (Invalid EMA_9_below_EMA_20)
      else if \<not> (fgt cl ema_9 \<and> fgt cl ema_20) then Inr (Invalid Price_below_EMAs)
      else if \<not> fgt cl ema_9 then Inr (Invalid Close_below_EMA_9)
      else
        let spread_pct = spread_pct_of ema_9 ema_20
        in if flt spread_pct (float_literal (3 / 10)) then Inr (Invalid (Too_Squeezed spread_pct))
           else if fgt spread_pct (float_literal (12 / 10))
             then Inr (Invalid (Overextended spread_pct))
           else
             (case is_stage2 row of
                None \<Rightarrow> Inl (KeyError ''is_stage2'')
              | Some stage2 \<Rightarrow>
                  if \<not> stage2 then Inr (Invalid Not_Stage_2)
                  else
                    (case ltp row of
                       None \<Rightarrow> Inl (KeyError ''ltp'')
                     | Some l \<Rightarrow>
                         Inr (Valid_Setup
                           \<lparr>v_stop_loss = (case stop_loss row of None \<Rightarrow> Finite 0 | Some v \<Rightarrow> v),
                            v_target = (case next_target row of None \<Rightarrow> Finite 0 | Some v \<Rightarrow> v),
                            v_ltp = l,
                            v_close = (case close row of None \<Rightarrow> cl | Some v \<Rightarrow> v),
                            v_ema_9 = ema_9,
                            v_ema_20 = ema_20,
                            v_spread_pct = spread_pct,
                            v_is_mtf = (case is_mtf row of None \<Rightarrow> False | Some v \<Rightarrow> v),
                            v_is_stage2 = stage2,
                            v_note = (case row_note row of None \<Rightarrow> [] | Some v \<Rightarrow> v)\<rparr>))))"

definition extract_values :: "signal \<Rightarrow> bar \<Rightarrow> exn + verdict" where
  \<comment> \<open>\<^verbatim>\<open># Extract values\<close>: the reads of the trigger candle, then the rules\<close>
  "extract_values row trigger_candle =
     (case EMA_9 trigger_candle of
        None \<Rightarrow> Inl (KeyError ''EMA_9'')
      | Some ema_9 \<Rightarrow>
          (case EMA_20 trigger_candle of
             None \<Rightarrow> Inl (KeyError ''EMA_20'')
           | Some ema_20 \<Rightarrow> check_rules row (bar_close trigger_candle) ema_9 ema_20))"

definition validate_setup :: "signal \<Rightarrow> bar list option \<Rightarrow> exn + verdict" where
  "validate_setup row historical_df =
     (case historical_df of
        None \<Rightarrow> Inr (Invalid Insufficient_Data)
      | Some df \<Rightarrow>
          if length df < 20 then Inr (Invalid Insufficient_Data)
          else
            (case signal_date row of
               Inl e \<Rightarrow> Inl e
             | Inr sd \<Rightarrow>
                 (case locate_trigger df sd of
                    Inl r \<Rightarrow> Inr (Invalid r)
                  | Inr trigger_candle \<Rightarrow> extract_values row trigger_candle)))"

section \<open>Resilient data fetcher\<close>

text \<open>
  \<^verbatim>\<open>SmartApiClient\<close> talks to three things outside the program: the historical-data
  endpoint (\<^verbatim>\<open>getCandleData\<close>), the server of the scrip master file and the file system that
  caches it. They are inputs of the model. The endpoint and the file server are scripts:
  the \<open>k\<close>-th call made during a run gets the \<open>k\<close>-th answer. The parameters of a request
  other than the token (exchange, interval, dates) do not influence the control flow and are
  left out. Every call to the outside is logged in a trace, in order.
\<close>

text \<open>
  An entry of the scrip master is a JSON object; a key it lacks is \<open>None\<close>. The body of a
  response of the file server, which is also what the cached file holds, is text that
  \<^verbatim>\<open>json.load\<close> rejects or an array of entries. The file server answers with a status code
  and a body, or the request raises.
\<close>

record scrip_item =
  exch_seg :: "string option"
  symbol :: "string option"
  token :: "string option"

datatype scrip_body = Not_Json | Json "scrip_item list"

datatype http_result = Http_Raises exn | Http_Response nat scrip_body

text \<open>
  A row of \<^verbatim>\<open>response['data']\<close> either makes the coercion (\<^verbatim>\<open>pd.to_datetime\<close>, \<^verbatim>\<open>astype(float)\<close>,
  \<^verbatim>\<open>astype(int)\<close>) raise, or coerces: \<open>Row\<close> holds the values the coercion gives, a NaN for
  a null price among them.
\<close>

datatype raw_row = Row timestamp float64 float64 float64 float64 "64 word" | Malformed_Row

record api_response =
  status :: bool
  data :: "raw_row list"
  message :: "string option"
  errorcode :: "string option"

datatype candle_response = Raises exn | Returns_None | Returns api_response

record env =
  upstream :: "nat \<Rightarrow> candle_response"
  remote :: "nat \<Rightarrow> http_result"

datatype event = Request "string option" | Sleep nat | Login | Download

record world =
  token_map :: "(string \<rightharpoonup> scrip_item) option"
  scrip_file :: "(int \<times> scrip_body) option"
  clock :: int
  trace :: "event list"

datatype fetch_error =
    Token_Not_Found string
  | API_returned_None
  | API_Error string string
  | Exception exn
  | Max_Retries_Exceeded

definition SCRIP_MASTER_FILE :: string where
  "SCRIP_MASTER_FILE = ''OpenAPIScripMaster.json''"

fun is_request :: "event \<Rightarrow> bool" where
  "is_request (Request t) = True"
| "is_request e = False"

definition count_requests :: "world \<Rightarrow> nat" where
  "count_requests w = length (filter is_request (trace w))"

definition count_downloads :: "world \<Rightarrow> nat" where
  "count_downloads w = length (filter (\<lambda>e. e = Download) (trace w))"

definition log_event :: "event \<Rightarrow> world \<Rightarrow> world" where
  "log_event e w = w\<lparr>trace := trace w @ [e]\<rparr>"

definition sleep :: "nat \<Rightarrow> world \<Rightarrow> world" where
  \<comment> \<open>\<^verbatim>\<open>time.sleep(n)\<close>: the only thing that lets time pass in the model\<close>
  "sleep n w = log_event (Sleep n) (w\<lparr>clock := clock w + int n\<rparr>)"

definition login :: "world \<Rightarrow> world" where
  \<comment> \<open>\<^verbatim>\<open>login\<close> catches every exception of its own; its result is not used by the fetcher\<close>
  "login w = log_event Login w"

subsection \<open>Scrip master\<close>

function remove_all :: "string \<Rightarrow> string \<Rightarrow> string" where
  \<comment> \<open>\<^verbatim>\<open>s.replace(old, '')\<close> for a non-empty \<open>old\<close>\<close>
  "remove_all old s =
     (if old = [] \<or> s = [] then s
      else if take (length old) s = old then remove_all old (drop (length old) s)
      else hd s # remove_all old (tl s))"
  by pat_completeness auto
termination
  by (relation "measure (\<lambda>(old, s). length s)") auto

definition endswith :: "string \<Rightarrow> string \<Rightarrow> bool" where
  "endswith s suffix = (length suffix \<le> length s \<and> drop (length s - length suffix) s = suffix)"

fun contains :: "string \<Rightarrow> string \<Rightarrow> bool" where
  \<comment> \<open>\<^verbatim>\<open>sub in s\<close>\<close>
  "contains [] sub = (sub = [])"
| "contains (c # cs) sub = (take (length sub) (c # cs) = sub \<or> contains cs sub)"

definition add_item ::
  "(string \<rightharpoonup> scrip_item) \<Rightarrow> scrip_item \<Rightarrow> exn + (string \<rightharpoonup> scrip_item)" where
  \<comment> \<open>the body of \<^verbatim>\<open>for item in data\<close>; \<^verbatim>\<open>item['symbol']\<close> is read for NSE entries only\<close>
  "add_item m item =
     (case exch_seg item of
        None \<Rightarrow> Inl (KeyError ''exch_seg'')
      | Some seg \<Rightarrow>
          if seg = ''NSE'' then
            (case symbol item of
               None \<Rightarrow> Inl (KeyError ''symbol'')
             | Some s \<Rightarrow>
                 if endswith s ''-EQ'' then Inr (m(remove_all ''-EQ'' s \<mapsto> item))
                 else Inr (m(s \<mapsto> item)))
          else Inr m)"

fun build_token_map ::
  "scrip_item list \<Rightarrow> (string \<rightharpoonup> scrip_item) \<Rightarrow> exn option \<times> (string \<rightharpoonup> scrip_item)" where
  \<comment> \<open>the loop fills \<^verbatim>\<open>self.token_map\<close> in place: an entry that raises leaves it half filled\<close>
  "build_token_map [] m = (None, m)"
| "build_token_map (item # items) m =
     (case add_item m item of
        Inl e \<Rightarrow> (Some e, m)
      | Inr m' \<Rightarrow> build_token_map items m')"

definition download_scrip_master :: "env \<Rightarrow> world \<Rightarrow> (exn + unit) \<times> world" where
  \<comment> \<open>\<^verbatim>\<open>_download_scrip_master\<close>: on status 200 the body is written to the file, unchecked\<close>
  "download_scrip_master ev w =
     (let w1 = log_event Download w
      in case remote ev (count_downloads w) of
           Http_Raises e \<Rightarrow> (Inl e, w1)
         | Http_Response status_code body \<Rightarrow>
             if status_code = 200 then (Inr (), w1\<lparr>scrip_file := Some (clock w1, body)\<rparr>)
             else (Inr (), w1))"

definition load_scrip_master :: "env \<Rightarrow> world \<Rightarrow> (exn + unit) \<times> world" where
  "load_scrip_master ev w =
     (let r = (case scrip_file w of
                 Some (file_time, body) \<Rightarrow>
                   if 86400 < clock w - file_time then download_scrip_master ev w
                   else (Inr (), w)
               | None \<Rightarrow> download_scrip_master ev w)
      in case r of
           (Inl e, w1) \<Rightarrow> (Inl e, w1)
         | (Inr u, w1) \<Rightarrow>
             (case scrip_file w1 of
                None \<Rightarrow> (Inl (FileNotFoundError SCRIP_MASTER_FILE), w1)
              | Some (file_time, Not_Json) \<Rightarrow> (Inl (ValueError ''JSONDecodeError''), w1)
              | Some (file_time, Json items) \<Rightarrow>
                  (case build_token_map items Map.empty of
                     (Some e, m) \<Rightarrow> (Inl e, w1\<lparr>token_map := Some m\<rparr>)
                   | (None, m) \<Rightarrow> (Inr (), w1\<lparr>token_map := Some m\<rparr>))))"

definition lookup_token :: "(string \<rightharpoonup> scrip_item) \<Rightarrow> string \<Rightarrow> exn + string option" where
  \<comment> \<open>\<^verbatim>\<open>if symbol in self.token_map: return self.token_map[symbol]['token']\<close>, else \<^verbatim>\<open>None\<close>\<close>
  "lookup_token m symb =
     (case m symb of
        None \<Rightarrow> Inr None
      | Some item \<Rightarrow>
          (case token item of
             None \<Rightarrow> Inl (KeyError ''token'')
           | Some t \<Rightarrow> Inr (Some t)))"

definition get_token :: "env \<Rightarrow> string \<Rightarrow> world \<Rightarrow> (exn + string option) \<times> world" where
  "get_token ev symb w =
     (let r = (case token_map w of
                 None \<Rightarrow> load_scrip_master ev w
               | Some m \<Rightarrow> (Inr (), w))
      in case r of
           (Inl e, w1) \<Rightarrow> (Inl e, w1)
         | (Inr u, w1) \<Rightarrow>
             (case token_map w1 of
                None \<Rightarrow> (Inl (TypeError ''argument of type NoneType is not iterable''), w1)
              | Some m \<Rightarrow> (lookup_token m symb, w1)))"

subsection \<open>The retry loop\<close>

definition getCandleData :: "env \<Rightarrow> string option \<Rightarrow> world \<Rightarrow> candle_response \<times> world" where
  "getCandleData ev tok w = (upstream ev (count_requests w), log_event (Request tok) w)"

fun coerce_row :: "raw_row \<Rightarrow> bar option" where
  "coerce_row (Row d o' h l c v) =
     Some \<lparr>bar_date = d, bar_open = o', bar_high = h, bar_low = l, bar_close = c,
           bar_volume = v, EMA_9 = None, EMA_20 = None\<rparr>"
| "coerce_row Malformed_Row = None"

definition parse_rows :: "raw_row list \<Rightarrow> exn + bar list" where
  \<comment> \<open>the DataFrame of a successful response: one malformed row fails all of it\<close>
  "parse_rows rows =
     (if list_all (\<lambda>r. coerce_row r \<noteq> None) rows then Inr (map (the \<circ> coerce_row) rows)
      else Inl (ValueError ''could not convert''))"

text \<open>
  What one pass through the body of \<^verbatim>\<open>for attempt in range(5)\<close> does inside the \<^verbatim>\<open>try\<close>:
  it returns from the function, or reaches a \<^verbatim>\<open>continue\<close> (with the token the next attempt
  uses), or raises.
\<close>

datatype step = Return "fetch_error + bar list" | Continue "string option"

definition try_body ::
  "env \<Rightarrow> string \<Rightarrow> nat \<Rightarrow> string option \<Rightarrow> world \<Rightarrow> (exn + step) \<times> world" where
  "try_body ev symb attempt tok w =
     (case getCandleData ev tok w of
        (Raises e, w1) \<Rightarrow> (Inl e, w1)
      | (Returns_None, w1) \<Rightarrow> (Inr (Return (Inl API_returned_None)), w1)
      | (Returns response, w1) \<Rightarrow>
          if status response \<and> data response \<noteq> [] then
            (case parse_rows (data response) of
               Inl e \<Rightarrow> (Inl e, w1)
             | Inr df \<Rightarrow> (Inr (Return (Inr df)), w1))
          else
            let msg = (case message response of None \<Rightarrow> ''Unknown API Error'' | Some m \<Rightarrow> m);
                error_code = (case errorcode response of None \<Rightarrow> [] | Some c \<Rightarrow> c)
            in if error_code \<in> set [''AB1004'', ''AB1005'', ''AB2001''] then
                 let w2 = sleep 5 w1;
                     w3 = (if attempt = 2 then login w2 else w2)
                 in (Inr (Continue tok), w3)
               else if contains msg ''Invalid Token'' \<or> error_code = ''AG8001'' then
                 (case download_scrip_master ev w1 of
                    (Inl e, w2) \<Rightarrow> (Inl e, w2)
                  | (Inr u, w2) \<Rightarrow>
                      (case load_scrip_master ev w2 of
                         (Inl e, w3) \<Rightarrow> (Inl e, w3)
                       | (Inr u', w3) \<Rightarrow>
                           (case get_token ev symb w3 of
                              (Inl e, w4) \<Rightarrow> (Inl e, w4)
                            | (Inr tok', w4) \<Rightarrow> (Inr (Continue tok'), sleep 2 w4))))
               else (Inr (Return (Inl (API_Error msg error_code))), w1))"

function retry_loop ::
  "env \<Rightarrow> string \<Rightarrow> nat \<Rightarrow> string option \<Rightarrow> world \<Rightarrow> (fetch_error + bar list) \<times> world" where
  "retry_loop ev symb attempt tok w =
     (if 5 \<le> attempt then (Inl Max_Retries_Exceeded, w)
      else
        (case try_body ev symb attempt tok w of
           (Inr (Return r), w1) \<Rightarrow> (r, w1)
         | (Inr (Continue tok'), w1) \<Rightarrow> retry_loop ev symb (attempt + 1) tok' w1
         | (Inl e, w1) \<Rightarrow>
             let w2 = sleep 2 w1
             in if attempt = 4 then (Inl (Exception e), w2)
                else retry_loop ev symb (attempt + 1) tok w2))"
  by pat_completeness auto
termination
  by (relation "measure (\<lambda>(ev, symb, attempt, tok, w). 5 - attempt)") auto

definition fetch_historical_data ::
  "env \<Rightarrow> string \<Rightarrow> world \<Rightarrow> (exn + (fetch_error + bar list)) \<times> world" where
  \<comment> \<open>\<open>Inl e\<close>: \<^verbatim>\<open>get_token\<close>, outside the \<^verbatim>\<open>try\<close>, raised \<open>e\<close>\<close>
  "fetch_historical_data ev symb w =
     (case get_token ev symb w of
        (Inl e, w1) \<Rightarrow> (Inl e, w1)
      | (Inr tok, w1) \<Rightarrow>
          if tok = None \<or> tok = Some [] then (Inr (Inl (Token_Not_Found symb)), w1)
          else (case retry_loop ev symb 0 tok w1 of (r, w2) \<Rightarrow> (Inr r, w2)))"

section \<open>Batch orchestrator\<close>

text \<open>
  The repository has the batch loop twice: in \<^verbatim>\<open>backend/main.py\<close>
  (\<^verbatim>\<open>run_backtest.event_generator\<close>, which says its logic is copied from \<^verbatim>\<open>app.py\<close>) and in
  \<^verbatim>\<open>app.py\<close>. Both are modelled from the point where the signals are fetched and the
  client is logged in. The events the generator yields and the widgets the dashboard
  draws are left out; the two accumulators and the client are the state. The routine of
  pandas that \<^verbatim>\<open>calculate_indicators\<close> calls is a parameter here as well.
\<close>

datatype rejection = Verdict reason | No_Data fetch_error | Error exn

record rejected_trade =
  rej_symbol :: string
  rej_reason :: rejection

record valid_trade =
  res_symbol :: string
  res_date :: string
  res_trade :: trade

record batch =
  valid_trades :: "valid_trade list"
  rejected_trades :: "rejected_trade list"
  client :: world

datatype outcome = No_Signals | Completed batch | Aborted exn batch

definition strptime :: "raw_date option \<Rightarrow> exn + day" where
  \<comment> \<open>\<^verbatim>\<open>datetime.strptime(row['date'], "%Y-%m-%dT%H:%M:%S.%fZ")\<close>\<close>
  "strptime d =
     (case d of
        None \<Rightarrow> Inl (KeyError ''date'')
      | Some (Iso_Z n) \<Rightarrow> Inr n
      | Some (Other_Format n) \<Rightarrow> Inl (ValueError ''time data does not match format'')
      | Some (Unparseable s) \<Rightarrow> Inl (ValueError ''time data does not match format''))"

subsection \<open>\<^verbatim>\<open>backend/main.py\<close>\<close>

definition main_candidate ::
  "ewm_routine \<Rightarrow> env \<Rightarrow> string \<Rightarrow> string \<Rightarrow> signal \<Rightarrow> batch \<Rightarrow> exn option \<times> batch"
  where
  \<comment> \<open>the body of the inner \<^verbatim>\<open>try\<close>; \<open>Some e\<close>: it raised \<open>e\<close>\<close>
  "main_candidate ewm ev target_date_str symb row b =
     (case strptime (date row) of
        Inl e \<Rightarrow> (Some e, b)
      | Inr to_date \<Rightarrow>
          (case fetch_historical_data ev symb (client b) of
             (Inl e, w) \<Rightarrow> (Some e, b\<lparr>client := w\<rparr>)
           | (Inr (Inl error_msg), w) \<Rightarrow>
               (None, b\<lparr>client := w,
                  rejected_trades := rejected_trades b @
                    [\<lparr>rej_symbol = symb, rej_reason = No_Data error_msg\<rparr>]\<rparr>)
           | (Inr (Inr hist_df), w) \<Rightarrow>
               (case validate_setup row (calculate_indicators ewm (Some hist_df)) of
                  Inl e \<Rightarrow> (Some e, b\<lparr>client := w\<rparr>)
                | Inr (Valid_Setup t) \<Rightarrow>
                    (None, b\<lparr>client := w,
                       valid_trades := valid_trades b @
                         [\<lparr>res_symbol = symb, res_date = target_date_str, res_trade = t\<rparr>]\<rparr>)
                | Inr (Invalid r) \<Rightarrow>
                    (None, b\<lparr>client := w,
                       rejected_trades := rejected_trades b @
                         [\<lparr>rej_symbol = symb, rej_reason = Verdict r\<rparr>,
                          \<lparr>rej_symbol = symb, rej_reason = Verdict r\<rparr>]\<rparr>))))"

fun event_generator_loop ::
  "ewm_routine \<Rightarrow> env \<Rightarrow> string \<Rightarrow> signal list \<Rightarrow> batch \<Rightarrow> outcome" where
  \<comment> \<open>\<^verbatim>\<open>for i, row in signals_df.iterrows()\<close>; \<open>Aborted\<close> is the outer \<^verbatim>\<open>except\<close> (Critical Error)\<close>
  "event_generator_loop ewm ev target_date_str [] b = Completed b"
| "event_generator_loop ewm ev target_date_str (row # rows) b =
     (case tradingsymbol row of
        None \<Rightarrow> Aborted (KeyError ''tradingsymbol'') b
      | Some symb \<Rightarrow>
          (case main_candidate ewm ev target_date_str symb row b of
             (None, b1) \<Rightarrow> event_generator_loop ewm ev target_date_str rows b1
           | (Some e, b1) \<Rightarrow>
               event_generator_loop ewm ev target_date_str rows
                 (b1\<lparr>rejected_trades := rejected_trades b1 @
                    [\<lparr>rej_symbol = symb, rej_reason = Error e\<rparr>]\<rparr>)))"

definition event_generator ::
  "ewm_routine \<Rightarrow> env \<Rightarrow> string \<Rightarrow> signal list \<Rightarrow> batch \<Rightarrow> outcome" where
  \<comment> \<open>no signals: the generator returns; else \<^verbatim>\<open># 3. Ensure Token Map\<close>, inside the outer
     \<^verbatim>\<open>try\<close> only, then the loop\<close>
  "event_generator ewm ev target_date_str rows b =
     (if rows = [] then No_Signals
      else
        (case (case token_map (client b) of
                 None \<Rightarrow> load_scrip_master ev (client b)
               | Some m \<Rightarrow> (Inr (), client b)) of
           (Inl e, w) \<Rightarrow> Aborted e (b\<lparr>client := w\<rparr>)
         | (Inr u, w) \<Rightarrow> event_generator_loop ewm ev target_date_str rows (b\<lparr>client := w\<rparr>)))"

subsection \<open>\<^verbatim>\<open>app.py\<close>\<close>

definition app_candidate ::
  "ewm_routine \<Rightarrow> env \<Rightarrow> string \<Rightarrow> string \<Rightarrow> signal \<Rightarrow> batch \<Rightarrow> exn option \<times> batch"
  where
  \<comment> \<open>the body of the loop, which has no \<^verbatim>\<open>try\<close>; \<open>Some e\<close>: it raised \<open>e\<close>\<close>
  "app_candidate ewm ev date_str symb row b =
     (case strptime (date row) of
        Inl e \<Rightarrow> (Some e, b)
      | Inr to_date \<Rightarrow>
          (case fetch_historical_data ev symb (client b) of
             (Inl e, w) \<Rightarrow> (Some e, b\<lparr>client := w\<rparr>)
           | (Inr (Inl error_msg), w) \<Rightarrow>
               (None, b\<lparr>client := sleep 1 w,
                  rejected_trades := rejected_trades b @
                    [\<lparr>rej_symbol = symb, rej_reason = No_Data error_msg\<rparr>]\<rparr>)
           | (Inr (Inr hist_df), w) \<Rightarrow>
               (case validate_setup row (calculate_indicators ewm (Some hist_df)) of
                  Inl e \<Rightarrow> (Some e, b\<lparr>client := w\<rparr>)
                | Inr (Valid_Setup t) \<Rightarrow>
                    (None, b\<lparr>client := sleep 1 w,
                       valid_trades := valid_trades b @
                         [\<lparr>res_symbol = symb, res_date = date_str, res_trade = t\<rparr>]\<rparr>)
                | Inr (Invalid r) \<Rightarrow>
                    (None, b\<lparr>client := sleep 1 w,
                       rejected_trades := rejected_trades b @
                         [\<lparr>rej_symbol = symb, rej_reason = Verdict r\<rparr>]\<rparr>))))"

fun app_batch_loop ::
  "ewm_routine \<Rightarrow> env \<Rightarrow> string \<Rightarrow> signal list \<Rightarrow> batch \<Rightarrow> outcome" where
  \<comment> \<open>\<^verbatim>\<open>for i, row in signals_df.iterrows()\<close>; an exception leaves the loop and the script\<close>
  "app_batch_loop ewm ev date_str [] b = Completed b"
| "app_batch_loop ewm ev date_str (row # rows) b =
     (case tradingsymbol row of
        None \<Rightarrow> Aborted (KeyError ''tradingsymbol'') b
      | Some symb \<Rightarrow>
          (case app_candidate ewm ev date_str symb row b of
             (None, b1) \<Rightarrow> app_batch_loop ewm ev date_str rows b1
           | (Some e, b1) \<Rightarrow> Aborted e b1))"

definition app_script ::
  "ewm_routine \<Rightarrow> env \<Rightarrow> string \<Rightarrow> signal list \<Rightarrow> batch \<Rightarrow> outcome" where
  \<comment> \<open>the script from \<^verbatim>\<open>if client.token_map is None\<close> on, with the button pressed\<close>
  "app_script ewm ev date_str rows b =
     (case (case token_map (client b) of
              None \<Rightarrow> load_scrip_master ev (client b)
            | Some m \<Rightarrow> (Inr (), client b)) of
        (Inl e, w) \<Rightarrow> Aborted e (b\<lparr>client := w\<rparr>)
      | (Inr u, w) \<Rightarrow>
          if rows = [] then No_Signals
          else app_batch_loop ewm ev date_str rows (b\<lparr>client := w\<rparr>))"

section \<open>The specification's vocabulary\<close>

text \<open>
  The definitions of this section follow the words of the specification, to be compared
  with the code above. The rule gates of the validator, in the specification's order:
  (a) fast EMA above slow EMA, (b) close above both, (c) close above the fast EMA,
  (d) the spread within its bounds, (e) the candidate is Stage 2.
\<close>

datatype gate = Gate_a | Gate_b | Gate_c | Gate_d | Gate_e

fun gate_passes :: "signal \<Rightarrow> float64 \<Rightarrow> float64 \<Rightarrow> float64 \<Rightarrow> gate \<Rightarrow> bool" where
  "gate_passes row cl fast slow Gate_a = fgt fast slow"
| "gate_passes row cl fast slow Gate_b = (fgt cl fast \<and> fgt cl slow)"
| "gate_passes row cl fast slow Gate_c = fgt cl fast"
| "gate_passes row cl fast slow Gate_d =
     (\<not> flt (spread_pct_of fast slow) (float_literal (3 / 10)) \<and>
      \<not> fgt (spread_pct_of fast slow) (float_literal (12 / 10)))"
| "gate_passes row cl fast slow Gate_e = (is_stage2 row = Some True)"

fun gate_reason :: "float64 \<Rightarrow> float64 \<Rightarrow> gate \<Rightarrow> reason" where
  "gate_reason fast slow Gate_a = EMA_9_below_EMA_20"
| "gate_reason fast slow Gate_b = Price_below_EMAs"
| "gate_reason fast slow Gate_c = Close_below_EMA_9"
| "gate_reason fast slow Gate_d =
     (if flt (spread_pct_of fast slow) (float_literal (3 / 10))
      then Too_Squeezed (spread_pct_of fast slow)
      else Overextended (spread_pct_of fast slow))"
| "gate_reason fast slow Gate_e = Not_Stage_2"

definition first_failing_gate ::
  "signal \<Rightarrow> float64 \<Rightarrow> float64 \<Rightarrow> float64 \<Rightarrow> gate option" where
  "first_failing_gate row cl fast slow =
     find (\<lambda>g. \<not> gate_passes row cl fast slow g) [Gate_a, Gate_b, Gate_c, Gate_d, Gate_e]"

text \<open>A verdict without its echo of the candidate's \<^verbatim>\<open>is_mtf\<close>.\<close>

fun erase_is_mtf :: "verdict \<Rightarrow> verdict" where
  "erase_is_mtf (Invalid r) = Invalid r"
| "erase_is_mtf (Valid_Setup t) = Valid_Setup (t\<lparr>v_is_mtf := False\<rparr>)"

section \<open>Example inputs\<close>

definition mk_bar :: "timestamp \<Rightarrow> rat \<Rightarrow> rat option \<Rightarrow> rat option \<Rightarrow> bar" where
  \<comment> \<open>a bar of finite values\<close>
  "mk_bar d c fast slow =
     \<lparr>bar_date = d, bar_open = Finite c, bar_high = Finite c, bar_low = Finite c,
      bar_close = Finite c, bar_volume = 1000,
      EMA_9 = map_option Finite fast, EMA_20 = map_option Finite slow\<rparr>"

definition mk_signal :: "raw_date \<Rightarrow> bool \<Rightarrow> bool \<Rightarrow> signal" where
  "mk_signal d stage2 mtf =
     \<lparr>tradingsymbol = Some ''SAIL'', date = Some d, ltp = Some (Finite 102),
      stop_loss = Some (Finite 95), next_target = Some (Finite 110), is_stage2 = Some stage2,
      is_mtf = Some mtf, row_note = None, close = None\<rparr>"

definition series_ending :: "bar \<Rightarrow> bar list" where
  \<comment> \<open>twenty bars: nineteen of day 1, then the given one\<close>
  "series_ending b = replicate 19 (mk_bar (Timestamp 1) 100 (Some 100) (Some 100)) @ [b]"

definition flat_ewm :: ewm_routine where
  \<comment> \<open>a routine for the examples that never reach it: every value is that of the first bar\<close>
  "flat_ewm n xs i = hd xs"

section \<open>The specification's response classes and the example runs\<close>

text \<open>
  The specification sorts what an attempt meets into classes. Here they are read off the
  code: \<open>Success\<close> is a response the fetcher returns the series of, \<open>No_Response\<close> the
  \<^verbatim>\<open>None\<close> it gives up on, \<open>Rate_Limited\<close> and \<open>Invalid_Identifier\<close> the two error branches
  that \<^verbatim>\<open>continue\<close>, \<open>Other_Api_Error\<close> the error branch that returns, and
  \<open>Transport_Exception\<close> everything the \<^verbatim>\<open>except\<close> clause of the attempt handles at once: the
  call raised, or the response has status true and rows that the coercion rejects.
\<close>

datatype response_class =
  Success | No_Response | Rate_Limited | Invalid_Identifier | Other_Api_Error
  | Transport_Exception

definition classify :: "candle_response \<Rightarrow> response_class" where
  "classify resp =
     (case resp of
        Raises e \<Rightarrow> Transport_Exception
      | Returns_None \<Rightarrow> No_Response
      | Returns r \<Rightarrow>
          if status r \<and> data r \<noteq> [] then
            (case parse_rows (data r) of Inl e \<Rightarrow> Transport_Exception | Inr df \<Rightarrow> Success)
          else
            let msg = (case message r of None \<Rightarrow> ''Unknown API Error'' | Some m \<Rightarrow> m);
                error_code = (case errorcode r of None \<Rightarrow> [] | Some c \<Rightarrow> c)
            in if error_code \<in> set [''AB1004'', ''AB1005'', ''AB2001''] then Rate_Limited
               else if contains msg ''Invalid Token'' \<or> error_code = ''AG8001''
                 then Invalid_Identifier
               else Other_Api_Error)"



definition healed_world ::
  "world \<Rightarrow> string option \<Rightarrow> scrip_item list \<Rightarrow> (string \<rightharpoonup> scrip_item) \<Rightarrow> string option \<Rightarrow> world"
  where
  "healed_world w tok items m tok' =
     w\<lparr>token_map := Some m,
       scrip_file := Some (clock w, Json items),
       clock := clock w + 2,
       trace := trace w @ [Request tok, Download, Sleep 2, Request tok']\<rparr>"

definition nse_item :: "string \<Rightarrow> string \<Rightarrow> scrip_item" where
  "nse_item s t = \<lparr>exch_seg = Some ''NSE'', symbol = Some s, token = Some t\<rparr>"

definition loaded_world :: "scrip_item list \<Rightarrow> int \<Rightarrow> int \<Rightarrow> world" where
  \<comment> \<open>the table loaded from a cached file of the given time\<close>
  "loaded_world items file_time now =
     \<lparr>token_map = Some (snd (build_token_map items Map.empty)),
      scrip_file = Some (file_time, Json items), clock = now, trace = []\<rparr>"

definition fresh_world :: "int \<Rightarrow> world" where
  \<comment> \<open>no table loaded, no cached file\<close>
  "fresh_world now = \<lparr>token_map = None, scrip_file = None, clock = now, trace = []\<rparr>"

definition rate_limited_response :: candle_response where
  "rate_limited_response =
     Returns \<lparr>status = False, data = [],
       message = Some ''Access denied because of exceeding access rate'',
       errorcode = Some ''AB1004''\<rparr>"

definition invalid_token_response :: candle_response where
  "invalid_token_response =
     Returns \<lparr>status = False, data = [], message = Some ''Invalid Token'',
       errorcode = Some ''AG8001''\<rparr>"

definition success_response :: candle_response where
  "success_response =
     Returns \<lparr>status = True, data = [Row (Timestamp 1) (Finite 100) (Finite 101) (Finite 99) (Finite 100) 1000],
       message = Some ''SUCCESS'', errorcode = Some []\<rparr>"

definition heal_env :: "http_result \<Rightarrow> env" where
  "heal_env h =
     \<lparr>upstream = (\<lambda>k. if k = 0 then invalid_token_response else success_response),
      remote = (\<lambda>k. h)\<rparr>"

definition coerced_example :: "bar list" where
  "coerced_example =
     [\<lparr>bar_date = Timestamp 1, bar_open = Finite 100, bar_high = Finite 101,
       bar_low = Finite 99, bar_close = Finite 100, bar_volume = 1000,
       EMA_9 = None, EMA_20 = None\<rparr>]"

definition empty_batch :: "world \<Rightarrow> batch" where
  "empty_batch w = \<lparr>valid_trades = [], rejected_trades = [], client = w\<rparr>"

definition success_env :: env where
  "success_env = \<lparr>upstream = (\<lambda>k. success_response), remote = (\<lambda>k. Http_Response 500 Not_Json)\<rparr>"

text \<open>The number of outcome records a batch holds.\<close>

definition records :: "batch \<Rightarrow> nat" where
  "records b = length (valid_trades b) + length (rejected_trades b)"

section \<open>Properties of the indicator calculator and the validator\<close>

subsection \<open>Evaluated float operations\<close>

lemma float_literal_101_2:
  "float_literal (506 / 5) = Finite (7121316910779597 / 70368744177664)"
  by code_simp

lemma float_literal_1_2:
  "float_literal (6 / 5) = Finite (5404319552844595 / 4503599627370496)"
  by code_simp

lemma float_literal_0_3:
  "float_literal (3 / 10) = Finite (5404319552844595 / 18014398509481984)"
  by code_simp

lemma spread_pct_101_2:
  "spread_pct_of (Finite (7121316910779597 / 70368744177664)) (Finite 100) =
   Finite (84442493013197 / 70368744177664)"
  by code_simp

lemma spread_pct_126_5:
  "spread_pct_of (Finite (253 / 2)) (Finite 125) =
   Finite (5404319552844595 / 4503599627370496)"
  by code_simp

lemma spread_pct_90: "spread_pct_of (Finite 90) (Finite 100) = Finite 10"
  by code_simp

lemma format_2f_spread:
  "format_2f (Finite (84442493013197 / 70368744177664)) = Some 120"
  by code_simp

lemmas validate_setup_eval =
  validate_setup_def series_ending_def mk_signal_def mk_bar_def signal_date_def
  locate_trigger_def dt_date_def timestamp_date_def days_between_def extract_values_def
  check_rules_def
  float_literal_1_2 float_literal_0_3 fgt_def Let_def

subsection \<open>The series too short\<close>

text \<open>
  C9: for a series of fewer than 20 bars, a missing or an empty one included,
  \<^verbatim>\<open>calculate_indicators\<close> returns its input as it is, with no indicator value added, and
  \<^verbatim>\<open>validate_setup\<close> rejects the candidate with the reason Insufficient Data, before and after
  the calculator ran.
\<close>

theorem short_series_unannotated_and_rejected:
  assumes "case df of None \<Rightarrow> True | Some rows \<Rightarrow> length rows < 20"
  shows "calculate_indicators ewm df = df \<and>
         validate_setup row df = Inr (Invalid Insufficient_Data) \<and>
         validate_setup row (calculate_indicators ewm df) = Inr (Invalid Insufficient_Data)"
  using assms by (cases df) (simp_all add: calculate_indicators_def validate_setup_def)

theorem short_series_witness:
  "calculate_indicators flat_ewm (Some (replicate 19 (mk_bar (Timestamp 1) 100 None None))) =
     Some (replicate 19 (mk_bar (Timestamp 1) 100 None None)) \<and>
   validate_setup (mk_signal (Iso_Z 1) True True)
     (Some (replicate 19 (mk_bar (Timestamp 1) 100 None None))) =
     Inr (Invalid Insufficient_Data) \<and>
   calculate_indicators flat_ewm None = None \<and>
   validate_setup (mk_signal (Iso_Z 1) True True) (Some []) = Inr (Invalid Insufficient_Data)"
  using
    short_series_unannotated_and_rejected
      [where df = "Some (replicate 19 (mk_bar (Timestamp 1) 100 None None))"
         and row = "mk_signal (Iso_Z 1) True True" and ewm = flat_ewm]
    short_series_unannotated_and_rejected
      [where df = None and row = "mk_signal (Iso_Z 1) True True" and ewm = flat_ewm]
    short_series_unannotated_and_rejected
      [where df = "Some []" and row = "mk_signal (Iso_Z 1) True True" and ewm = flat_ewm]
  by simp

subsection \<open>The order of the gates\<close>

lemma check_rules_first_failing:
  assumes "is_stage2 row = Some s2" and "first_failing_gate row cl fast slow = Some g"
  shows "check_rules row cl fast slow = Inr (Invalid (gate_reason fast slow g))"
  using assms
  by (auto simp add: first_failing_gate_def check_rules_def Let_def split: if_splits)

lemma check_rules_gate_a:
  "\<not> fgt fast slow \<Longrightarrow> check_rules row cl fast slow = Inr (Invalid EMA_9_below_EMA_20)"
  by (simp add: check_rules_def)

lemma gate_c_never_first: "first_failing_gate row cl fast slow \<noteq> Some Gate_c"
  by (simp add: first_failing_gate_def)

lemma validate_setup_located:
  assumes "20 \<le> length df" and "signal_date row = Inr sd" and "locate_trigger df sd = Inr t"
    and "EMA_9 t = Some fast" and "EMA_20 t = Some slow"
  shows "validate_setup row (Some df) = check_rules row (bar_close t) fast slow"
  using assms by (simp add: validate_setup_def extract_values_def)

text \<open>
  C6: once the trigger bar \<open>t\<close> is located, with its indicator values \<open>fast\<close> and \<open>slow\<close>, the
  validator rejects with the reason of the first gate that fails in the order (a), (b), (c),
  (d), (e), whatever the later gates would say. In particular a candidate that fails gate (a)
  and gate (d) is rejected with \<^verbatim>\<open>EMA 9 < EMA 20\<close>.
\<close>

theorem gates_in_order_first_failure_wins:
  assumes "20 \<le> length df" and "signal_date row = Inr sd" and "locate_trigger df sd = Inr t"
    and "EMA_9 t = Some fast" and "EMA_20 t = Some slow" and "is_stage2 row = Some s2"
  shows "(first_failing_gate row (bar_close t) fast slow = Some g \<longrightarrow>
           validate_setup row (Some df) = Inr (Invalid (gate_reason fast slow g))) \<and>
         (\<not> gate_passes row (bar_close t) fast slow Gate_a \<and>
          \<not> gate_passes row (bar_close t) fast slow Gate_d \<longrightarrow>
           validate_setup row (Some df) = Inr (Invalid EMA_9_below_EMA_20))"
  using assms
  by (simp add: validate_setup_located check_rules_first_failing check_rules_gate_a)

theorem gates_in_order_witness:
  "first_failing_gate (mk_signal (Iso_Z 20) True False) (Finite 95) (Finite 90) (Finite 100) =
     Some Gate_a \<and>
   \<not> gate_passes (mk_signal (Iso_Z 20) True False) (Finite 95) (Finite 90) (Finite 100) Gate_d \<and>
   validate_setup (mk_signal (Iso_Z 20) True False)
     (Some (series_ending (mk_bar (Timestamp 20) 95 (Some 90) (Some 100)))) =
     Inr (Invalid EMA_9_below_EMA_20)"
proof -
  let ?row = "mk_signal (Iso_Z 20) True False"
  let ?t = "mk_bar (Timestamp 20) 95 (Some 90) (Some 100)"
  have located: "locate_trigger (series_ending ?t) 20 = Inr ?t"
    by (simp add: validate_setup_eval)
  have a: "first_failing_gate ?row (Finite 95) (Finite 90) (Finite 100) = Some Gate_a"
    by (simp add: first_failing_gate_def fgt_def)
  have d: "\<not> gate_passes ?row (Finite 95) (Finite 90) (Finite 100) Gate_d"
    by (simp add: spread_pct_90 float_literal_1_2 float_literal_0_3 fgt_def)
  have "validate_setup ?row (Some (series_ending ?t)) = Inr (Invalid EMA_9_below_EMA_20)"
    using gates_in_order_first_failure_wins
      [of "series_ending ?t" ?row 20 ?t "Finite 90" "Finite 100" True Gate_a] located a d
    by (simp add: series_ending_def mk_bar_def mk_signal_def signal_date_def)
  with a d show ?thesis by simp
qed

subsection \<open>The trigger bar when no date matches\<close>

lemma locate_trigger_no_match:
  assumes "\<forall>b\<in>set df. dt_date (bar_date b) \<noteq> Some sd"
  shows "locate_trigger df sd =
     (case bar_date (last df) of
        NaT \<Rightarrow>
          Inl (Date_Error
            (TypeError ''unsupported operand type(s) for -: NaTType and datetime.date''))
      | Timestamp d \<Rightarrow> if \<bar>d - sd\<bar> \<le> 5 then Inr (last df) else Inl Data_Outdated)"
proof -
  have "filter (\<lambda>b. dt_date (bar_date b) = Some sd) df = []"
    using assms by (simp add: filter_empty_conv)
  then show ?thesis
    by (simp add: locate_trigger_def timestamp_date_def days_between_def Let_def not_less
        split: timestamp.splits)
qed

text \<open>
  C8, as amended: let the series have at least 20 bars. When the signal's date parses, to
  \<open>sd\<close>, and no bar has that date, the validator takes the last bar as trigger bar exactly
  when its date is at most 5 days away from \<open>sd\<close> (the verdict is then the one the rules give
  on that bar) and rejects with Data Outdated when it is further away; when the last bar has
  no date (\<^verbatim>\<open>NaT\<close>), the subtraction of the dates raises inside the \<^verbatim>\<open>try\<close> block and the
  validator rejects with Date Error, carrying that \<^verbatim>\<open>TypeError\<close>. When the signal's own date
  cannot be extracted, the validator does not reject: it raises that error, since the date is
  parsed before the \<^verbatim>\<open>try\<close> block.
\<close>

theorem fallback_to_last_bar_within_5_days:
  assumes "20 \<le> length df"
  shows "(signal_date row = Inr sd \<and> (\<forall>b\<in>set df. dt_date (bar_date b) \<noteq> Some sd) \<longrightarrow>
            validate_setup row (Some df) =
              (case bar_date (last df) of
                 NaT \<Rightarrow>
                   Inr (Invalid (Date_Error
                     (TypeError ''unsupported operand type(s) for -: NaTType and datetime.date'')))
               | Timestamp d \<Rightarrow>
                   if \<bar>d - sd\<bar> \<le> 5 then extract_values row (last df)
                   else Inr (Invalid Data_Outdated)) \<and>
            (locate_trigger df sd = Inr (last df)) =
              (case bar_date (last df) of NaT \<Rightarrow> False | Timestamp d \<Rightarrow> \<bar>d - sd\<bar> \<le> 5)) \<and>
         (signal_date row = Inl e \<longrightarrow> validate_setup row (Some df) = Inl e)"
proof -
  have "validate_setup row (Some df) =
          (case bar_date (last df) of
             NaT \<Rightarrow>
               Inr (Invalid (Date_Error
                 (TypeError ''unsupported operand type(s) for -: NaTType and datetime.date'')))
           | Timestamp d \<Rightarrow>
               if \<bar>d - sd\<bar> \<le> 5 then extract_values row (last df)
               else Inr (Invalid Data_Outdated)) \<and>
        (locate_trigger df sd = Inr (last df)) =
          (case bar_date (last df) of NaT \<Rightarrow> False | Timestamp d \<Rightarrow> \<bar>d - sd\<bar> \<le> 5)"
    if "signal_date row = Inr sd" and "\<forall>b\<in>set df. dt_date (bar_date b) \<noteq> Some sd"
    using assms that(1)
    by (simp add: validate_setup_def locate_trigger_no_match[OF that(2)] split: timestamp.splits)
  moreover have "validate_setup row (Some df) = Inl e" if "signal_date row = Inl e"
    using assms that by (simp add: validate_setup_def)
  ultimately show ?thesis by blast
qed

theorem fallback_to_last_bar_witness:
  "validate_setup (mk_signal (Iso_Z 20) True False)
     (Some (series_ending (mk_bar (Timestamp 15) 95 (Some 90) (Some 100)))) =
     Inr (Invalid EMA_9_below_EMA_20) \<and>
   validate_setup (mk_signal (Iso_Z 20) True False)
     (Some (series_ending (mk_bar (Timestamp 14) 95 (Some 90) (Some 100)))) =
     Inr (Invalid Data_Outdated) \<and>
   validate_setup (mk_signal (Iso_Z 20) True False)
     (Some (series_ending (mk_bar NaT 95 (Some 90) (Some 100)))) =
     Inr (Invalid (Date_Error
       (TypeError ''unsupported operand type(s) for -: NaTType and datetime.date''))) \<and>
   validate_setup (mk_signal (Other_Format 20) True False)
     (Some (series_ending (mk_bar (Timestamp 14) 95 (Some 90) (Some 100)))) =
     Inr (Invalid Data_Outdated)"
  using
    fallback_to_last_bar_within_5_days
      [where df = "series_ending (mk_bar (Timestamp 15) 95 (Some 90) (Some 100))"
         and row = "mk_signal (Iso_Z 20) True False" and sd = 20]
    fallback_to_last_bar_within_5_days
      [where df = "series_ending (mk_bar (Timestamp 14) 95 (Some 90) (Some 100))"
         and row = "mk_signal (Iso_Z 20) True False" and sd = 20]
    fallback_to_last_bar_within_5_days
      [where df = "series_ending (mk_bar NaT 95 (Some 90) (Some 100))"
         and row = "mk_signal (Iso_Z 20) True False" and sd = 20]
    fallback_to_last_bar_within_5_days
      [where df = "series_ending (mk_bar (Timestamp 14) 95 (Some 90) (Some 100))"
         and row = "mk_signal (Other_Format 20) True False" and sd = 20]
  by (simp add: series_ending_def mk_bar_def mk_signal_def signal_date_def dt_date_def
      extract_values_def check_rules_def fgt_def)

text \<open>
  The claim as it stands fails: a candidate whose date cannot be parsed meets no bar of its
  date, and the date-extraction error is not turned into a Date Error rejection. The
  validator raises it.
\<close>

theorem unparseable_signal_date_counterexample:
  "validate_setup (mk_signal (Unparseable ''not a date'') True False)
     (Some (series_ending (mk_bar (Timestamp 20) 95 (Some 90) (Some 100)))) =
     Inl (ValueError ''not a date'')"
  by (simp add: validate_setup_def series_ending_def mk_signal_def signal_date_def)

subsection \<open>The pass-through flag\<close>

lemma check_rules_is_mtf:
  "map_sum id erase_is_mtf (check_rules (row\<lparr>is_mtf := m\<rparr>) cl fast slow) =
   map_sum id erase_is_mtf (check_rules row cl fast slow)"
  by (simp add: check_rules_def Let_def split: option.splits)

text \<open>
  C10: two candidates that differ in \<^verbatim>\<open>is_mtf\<close> only get, on the same series, the same
  exception or the same verdict up to the echoed \<^verbatim>\<open>is_mtf\<close> field: the same acceptance, the
  same reason and the same values in every other field.
\<close>

theorem is_mtf_does_not_influence_verdict:
  "map_sum id erase_is_mtf (validate_setup (row\<lparr>is_mtf := m\<rparr>) df) =
   map_sum id erase_is_mtf (validate_setup row df)"
  by (simp add: validate_setup_def signal_date_def extract_values_def check_rules_is_mtf
      split: option.splits sum.splits raw_date.splits)

theorem is_mtf_witness:
  "map_sum id erase_is_mtf
     (validate_setup ((mk_signal (Iso_Z 20) True False)\<lparr>is_mtf := Some True\<rparr>)
        (Some (series_ending (mk_bar (Timestamp 20) 127 (Some (253 / 2)) (Some 125))))) =
   Inr (Valid_Setup
     \<lparr>v_stop_loss = Finite 95, v_target = Finite 110, v_ltp = Finite 102,
      v_close = Finite 127, v_ema_9 = Finite (253 / 2), v_ema_20 = Finite 125,
      v_spread_pct = Finite (5404319552844595 / 4503599627370496),
      v_is_mtf = False, v_is_stage2 = True, v_note = []\<rparr>)"
  using is_mtf_does_not_influence_verdict
    [where row = "mk_signal (Iso_Z 20) True False" and m = "Some True"
       and df = "Some (series_ending (mk_bar (Timestamp 20) 127 (Some (253 / 2)) (Some 125)))"]
  by (simp add: validate_setup_eval spread_pct_126_5)

subsection \<open>What the calculator attaches\<close>

lemma length_ewm_mean: "length (ewm_mean ewm n xs) = length xs"
  by (simp add: ewm_mean_def)

lemma close_set_EMA_9:
  "length vs = length df \<Longrightarrow> map bar_close (set_EMA_9 df vs) = map bar_close df"
  by (induction df vs rule: list_induct2') (simp_all add: set_EMA_9_def)

lemma calculate_indicators_long:
  assumes "20 \<le> length df" and "i < length df"
  shows "\<exists>df'. calculate_indicators ewm (Some df) = Some df' \<and> length df' = length df \<and>
           df' ! i = (df ! i)\<lparr>EMA_9 := Some (ewm 9 (map bar_close df) i),
                                EMA_20 := Some (ewm 20 (map bar_close df) i)\<rparr>"
proof -
  let ?f = "ewm_mean ewm 9 (map bar_close df)" and ?s = "ewm_mean ewm 20 (map bar_close df)"
  have cl: "map bar_close (set_EMA_9 df ?f) = map bar_close df"
    by (simp add: close_set_EMA_9 length_ewm_mean)
  have c: "calculate_indicators ewm (Some df) = Some (set_EMA_20 (set_EMA_9 df ?f) ?s)"
    using assms(1) by (simp add: calculate_indicators_def Let_def cl)
  have "length (set_EMA_20 (set_EMA_9 df ?f) ?s) = length df"
    by (simp add: set_EMA_9_def set_EMA_20_def length_ewm_mean)
  moreover have "set_EMA_20 (set_EMA_9 df ?f) ?s ! i =
      (df ! i)\<lparr>EMA_9 := Some (ewm 9 (map bar_close df) i),
                EMA_20 := Some (ewm 20 (map bar_close df) i)\<rparr>"
    using assms(2) by (simp add: set_EMA_9_def set_EMA_20_def ewm_mean_def)
  ultimately show ?thesis using c by simp
qed

subsection \<open>The upper bound of the spread\<close>

text \<open>
  C1, as amended: the binary64 value of 101.2 is a little above 101.2, so for a Stage 2
  candidate whose trigger bar has fast EMA 101.2, slow EMA 100.0 and close 101.5 the
  validator computes the spread 84442493013197 / 70368744177664 = 1.2000000000000028...
  (printed as 1.20 in the reason), which is above the threshold, the binary64 value of 1.2,
  and rejects with Overextended. The bound is exclusive: with fast EMA 126.5, slow EMA 125.0
  and close 127.0 the computed spread is the threshold itself and the candidate is accepted.
\<close>

theorem overextended_example_by_rounding:
  "float_literal (1012 / 10) = Finite (7121316910779597 / 70368744177664) \<and>
   validate_setup (mk_signal (Iso_Z 20) True False)
     (Some (series_ending
        (mk_bar (Timestamp 20) (1015 / 10) (Some (7121316910779597 / 70368744177664)) (Some 100)))) =
     Inr (Invalid (Overextended (Finite (84442493013197 / 70368744177664)))) \<and>
   fgt (Finite (84442493013197 / 70368744177664)) (float_literal (12 / 10)) \<and>
   format_2f (Finite (84442493013197 / 70368744177664)) = Some 120 \<and>
   validate_setup (mk_signal (Iso_Z 20) True False)
     (Some (series_ending (mk_bar (Timestamp 20) 127 (Some (1265 / 10)) (Some 125)))) =
     Inr (Valid_Setup
       \<lparr>v_stop_loss = Finite 95, v_target = Finite 110, v_ltp = Finite 102,
        v_close = Finite 127, v_ema_9 = Finite (1265 / 10), v_ema_20 = Finite 125,
        v_spread_pct = float_literal (12 / 10),
        v_is_mtf = False, v_is_stage2 = True, v_note = []\<rparr>)"
  by (simp add: validate_setup_eval float_literal_101_2 spread_pct_101_2 spread_pct_126_5
      format_2f_spread)

text \<open>
  The claim as it stands fails: the validator does not reject this candidate with a spread
  of 1.2, neither the rational 1.2 nor its binary64 value.
\<close>

theorem overextended_example_counterexample:
  "validate_setup (mk_signal (Iso_Z 20) True False)
     (Some (series_ending
        (mk_bar (Timestamp 20) (1015 / 10) (Some (7121316910779597 / 70368744177664)) (Some 100)))) \<noteq>
     Inr (Invalid (Overextended (Finite (12 / 10)))) \<and>
   validate_setup (mk_signal (Iso_Z 20) True False)
     (Some (series_ending
        (mk_bar (Timestamp 20) (1015 / 10) (Some (7121316910779597 / 70368744177664)) (Some 100)))) \<noteq>
     Inr (Invalid (Overextended (float_literal (12 / 10))))"
  by (simp add: validate_setup_eval spread_pct_101_2)

section \<open>Properties of the fetcher\<close>

declare retry_loop.simps [simp del]

subsection \<open>Requests are counted\<close>

lemma count_requests_updates [simp]:
  "count_requests (w\<lparr>scrip_file := f\<rparr>) = count_requests w"
  "count_requests (w\<lparr>token_map := t\<rparr>) = count_requests w"
  "count_requests (w\<lparr>clock := c\<rparr>) = count_requests w"
  by (simp_all add: count_requests_def)

lemma count_requests_log_event [simp]:
  "count_requests (log_event e w) = count_requests w + (if is_request e then 1 else 0)"
  by (simp add: count_requests_def log_event_def)

lemma count_requests_sleep [simp]: "count_requests (sleep n w) = count_requests w"
  by (simp add: sleep_def)

lemma count_requests_login [simp]: "count_requests (login w) = count_requests w"
  by (simp add: login_def)


lemma count_downloads_updates [simp]:
  "count_downloads (w\<lparr>scrip_file := f\<rparr>) = count_downloads w"
  "count_downloads (w\<lparr>token_map := t\<rparr>) = count_downloads w"
  "count_downloads (w\<lparr>clock := c\<rparr>) = count_downloads w"
  "count_downloads (log_event (Request tok) w) = count_downloads w"
  "count_downloads (log_event (Sleep n) w) = count_downloads w"
  "count_downloads (log_event Download w) = Suc (count_downloads w)"
  by (simp_all add: count_downloads_def log_event_def)








lemma build_token_map_SAIL:
  "build_token_map [nse_item ''SAIL-EQ'' t] Map.empty =
     (None, [''SAIL'' \<mapsto> nse_item ''SAIL-EQ'' t])"
  by (simp add: add_item_def nse_item_def endswith_def)

lemma lookup_token_SAIL:
  "lookup_token [''SAIL'' \<mapsto> nse_item ''SAIL-EQ'' t] ''SAIL'' = Inr (Some t)"
  by (simp add: lookup_token_def nse_item_def)

declare build_token_map.simps [simp del]

lemma classify_examples:
  "classify rate_limited_response = Rate_Limited"
  "classify invalid_token_response = Invalid_Identifier"
  "classify success_response = Success"
  by (simp_all add: classify_def rate_limited_response_def invalid_token_response_def
      success_response_def parse_rows_def)




lemma get_token_loaded:
  "get_token ev ''SAIL'' (loaded_world [nse_item ''SAIL-EQ'' ''2963''] t now) =
     (Inr (Some ''2963''), loaded_world [nse_item ''SAIL-EQ'' ''2963''] t now)"
  by (simp add: get_token_def loaded_world_def build_token_map_SAIL lookup_token_SAIL)


subsection \<open>Self-healing\<close>

lemma try_body_invalid_identifier:
  assumes "classify (upstream ev (count_requests w)) = Invalid_Identifier"
  shows "try_body ev symb attempt tok w =
     (case download_scrip_master ev (log_event (Request tok) w) of
        (Inl e, w2) \<Rightarrow> (Inl e, w2)
      | (Inr u, w2) \<Rightarrow>
          (case load_scrip_master ev w2 of
             (Inl e, w3) \<Rightarrow> (Inl e, w3)
           | (Inr u', w3) \<Rightarrow>
               (case get_token ev symb w3 of
                  (Inl e, w4) \<Rightarrow> (Inl e, w4)
                | (Inr tok', w4) \<Rightarrow> (Inr (Continue tok'), sleep 2 w4))))"
  using assms
  by (auto simp add: try_body_def getCandleData_def classify_def Let_def
      split: candle_response.splits sum.splits if_splits)

lemma try_body_success:
  assumes "upstream ev (count_requests w) = Returns r" and "status r" and "data r \<noteq> []"
    and "parse_rows (data r) = Inr df"
  shows "try_body ev symb attempt tok w = (Inr (Return (Inr df)), log_event (Request tok) w)"
  using assms by (simp add: try_body_def getCandleData_def)

lemma parse_success:
  "parse_rows [Row (Timestamp 1) (Finite 100) (Finite 101) (Finite 99) (Finite 100) 1000] =
     Inr coerced_example"
  by (simp add: parse_rows_def coerced_example_def)

lemma try_body_success_response:
  assumes "upstream ev (count_requests w) = success_response"
  shows "try_body ev symb attempt tok w =
     (Inr (Return (Inr coerced_example)), log_event (Request tok) w)"
  by (rule try_body_success[where r = "\<lparr>status = True,
        data = [Row (Timestamp 1) (Finite 100) (Finite 101) (Finite 99) (Finite 100) 1000],
        message = Some ''SUCCESS'', errorcode = Some []\<rparr>"])
     (simp_all add: assms success_response_def parse_success)

text \<open>
  C4, as amended: let the symbol resolve to a token (\<open>w0\<close> is the client after that; it is
  the client before when the table was already loaded). When the first response reports an
  invalid token, the download this forces succeeds, with status 200 and a table that loads
  and in which the lookup of the symbol does not raise, and the second response is a
  success, \<^verbatim>\<open>fetch_historical_data\<close> returns the parsed series; the second request carries the
  token looked up in the downloaded table; and between the two requests the table is
  downloaded once: after \<open>w0\<close> the trace is the first request, one download, a sleep of 2
  and the second request.
\<close>

theorem self_healing_after_invalid_identifier:
  assumes "get_token ev symb w = (Inr (Some tok), w0)" and "tok \<noteq> []"
    and "classify (upstream ev (count_requests w0)) = Invalid_Identifier"
    and "upstream ev (Suc (count_requests w0)) = Returns r"
    and "status r" and "data r \<noteq> []" and "parse_rows (data r) = Inr df"
    and "remote ev (count_downloads w0) = Http_Response 200 (Json items)"
    and "build_token_map items Map.empty = (None, m)"
    and "lookup_token m symb = Inr tok'"
  shows "fetch_historical_data ev symb w =
           (Inr (Inr df), healed_world w0 (Some tok) items m tok') \<and>
         count_downloads (healed_world w0 (Some tok) items m tok') = Suc (count_downloads w0) \<and>
         (token_map w \<noteq> None \<longrightarrow> w0 = w)"
proof -
  let ?tok = "Some tok"
  let ?w1 = "log_event (Request ?tok) w0"
  let ?w2 = "(log_event Download ?w1)\<lparr>scrip_file := Some (clock w0, Json items)\<rparr>"
  let ?w3 = "?w2\<lparr>token_map := Some m\<rparr>"
  have d: "download_scrip_master ev ?w1 = (Inr (), ?w2)"
    using assms(8) by (simp add: download_scrip_master_def Let_def) (simp add: log_event_def)
  have l: "load_scrip_master ev ?w2 = (Inr (), ?w3)"
    using assms(9) by (simp add: load_scrip_master_def Let_def log_event_def)
  have g': "get_token ev symb ?w3 = (Inr tok', ?w3)"
    using assms(10) by (simp add: get_token_def)
  have t0: "try_body ev symb 0 ?tok w0 = (Inr (Continue tok'), sleep 2 ?w3)"
    by (simp add: try_body_invalid_identifier[OF assms(3)] d l g')
  have c: "count_requests (sleep 2 ?w3) = Suc (count_requests w0)"
    by simp
  have t1: "try_body ev symb (Suc 0) tok' (sleep 2 ?w3) =
      (Inr (Return (Inr df)), log_event (Request tok') (sleep 2 ?w3))"
    using assms(4-7) by (intro try_body_success) (simp_all add: c)
  have "retry_loop ev symb 0 ?tok w0 = (Inr df, log_event (Request tok') (sleep 2 ?w3))"
    by (subst retry_loop.simps, simp add: t0, subst retry_loop.simps, simp add: t1)
  moreover have "log_event (Request tok') (sleep 2 ?w3) = healed_world w0 ?tok items m tok'"
    by (simp add: healed_world_def sleep_def log_event_def)
  moreover have "count_downloads (healed_world w0 ?tok items m tok') = Suc (count_downloads w0)"
    by (simp add: healed_world_def count_downloads_def)
  moreover have "w0 = w" if "token_map w \<noteq> None"
    using that assms(1) by (auto simp add: get_token_def)
  ultimately show ?thesis
    using assms(1,2) by (simp add: fetch_historical_data_def)
qed

lemma load_fresh_world:
  "load_scrip_master (heal_env (Http_Response 200 (Json [nse_item ''SAIL-EQ'' ''9999''])))
     (fresh_world 100) =
     (Inr (), (loaded_world [nse_item ''SAIL-EQ'' ''9999''] 100 100)\<lparr>trace := [Download]\<rparr>)"
  by (simp add: load_scrip_master_def download_scrip_master_def Let_def heal_env_def
      fresh_world_def loaded_world_def log_event_def count_downloads_def build_token_map_SAIL)

theorem self_healing_witness:
  "fetch_historical_data (heal_env (Http_Response 200 (Json [nse_item ''SAIL-EQ'' ''9999''])))
     ''SAIL'' (loaded_world [nse_item ''SAIL-EQ'' ''2963''] 0 100) =
     (Inr (Inr coerced_example),
      healed_world (loaded_world [nse_item ''SAIL-EQ'' ''2963''] 0 100) (Some ''2963'')
        [nse_item ''SAIL-EQ'' ''9999''] [''SAIL'' \<mapsto> nse_item ''SAIL-EQ'' ''9999'']
        (Some ''9999'')) \<and>
   trace (healed_world (loaded_world [nse_item ''SAIL-EQ'' ''2963''] 0 100) (Some ''2963'')
        [nse_item ''SAIL-EQ'' ''9999''] [''SAIL'' \<mapsto> nse_item ''SAIL-EQ'' ''9999'']
        (Some ''9999'')) =
     [Request (Some ''2963''), Download, Sleep 2, Request (Some ''9999'')] \<and>
   trace (snd (fetch_historical_data
        (heal_env (Http_Response 200 (Json [nse_item ''SAIL-EQ'' ''9999'']))) ''SAIL''
        (fresh_world 100))) =
     [Download, Request (Some ''9999''), Download, Sleep 2, Request (Some ''9999'')]"
proof -
  let ?ev = "heal_env (Http_Response 200 (Json [nse_item ''SAIL-EQ'' ''9999'']))"
  let ?m = "[''SAIL'' \<mapsto> nse_item ''SAIL-EQ'' ''9999'']"
  have up0: "classify (upstream ?ev 0) = Invalid_Identifier"
    and up1: "upstream ?ev (Suc 0) = success_response"
    and rem: "remote ?ev k = Http_Response 200 (Json [nse_item ''SAIL-EQ'' ''9999''])" for k
    by (simp_all add: heal_env_def classify_examples)
  have one: "fetch_historical_data ?ev ''SAIL'' w =
      (Inr (Inr coerced_example),
       healed_world w0 (Some tok) [nse_item ''SAIL-EQ'' ''9999''] ?m (Some ''9999''))"
    if "get_token ?ev ''SAIL'' w = (Inr (Some tok), w0)" and "tok \<noteq> []"
      and "count_requests w0 = 0" for w w0 tok
    using self_healing_after_invalid_identifier
      [where ev = ?ev and symb = "''SAIL''" and w = w and ?w0.0 = w0 and tok = tok
         and items = "[nse_item ''SAIL-EQ'' ''9999'']" and m = ?m and tok' = "Some ''9999''"
         and df = coerced_example
         and r = "\<lparr>status = True,
           data = [Row (Timestamp 1) (Finite 100) (Finite 101) (Finite 99) (Finite 100) 1000],
           message = Some ''SUCCESS'', errorcode = Some []\<rparr>"]
      that up0 up1 rem
    by (simp add: build_token_map_SAIL lookup_token_SAIL parse_success success_response_def)
  let ?w = "loaded_world [nse_item ''SAIL-EQ'' ''2963''] 0 100"
  have a: "fetch_historical_data ?ev ''SAIL'' ?w =
      (Inr (Inr coerced_example),
       healed_world ?w (Some ''2963'') [nse_item ''SAIL-EQ'' ''9999''] ?m (Some ''9999''))"
    by (rule one[OF get_token_loaded]) (simp_all add: count_requests_def loaded_world_def)
  let ?l = "(loaded_world [nse_item ''SAIL-EQ'' ''9999''] 100 100)\<lparr>trace := [Download]\<rparr>"
  have n: "token_map (fresh_world 100) = None"
    by (simp add: fresh_world_def)
  have g: "get_token ?ev ''SAIL'' (fresh_world 100) = (Inr (Some ''9999''), ?l)"
    by (simp add: get_token_def n load_fresh_world)
       (simp add: loaded_world_def build_token_map_SAIL lookup_token_SAIL)
  have b: "fetch_historical_data ?ev ''SAIL'' (fresh_world 100) =
      (Inr (Inr coerced_example),
       healed_world ?l (Some ''9999'') [nse_item ''SAIL-EQ'' ''9999''] ?m (Some ''9999''))"
    by (rule one[OF g]) (simp_all add: count_requests_def loaded_world_def)
  show ?thesis
    by (simp add: a b) (simp add: healed_world_def loaded_world_def)
qed

text \<open>
  Without the success of the download the claim fails. With a cached file older than 24
  hours and a file server that answers 500, the forced download fails, \<^verbatim>\<open>load_scrip_master\<close>
  finds the file stale and downloads again, and the second request carries the old token:
  two downloads. With a file server that answers 200 and a body that is not JSON, the table
  is downloaded once, \<^verbatim>\<open>json.load\<close> raises, and the second request carries the old token
  again: no identifier from a refreshed table.
\<close>

theorem self_healing_counterexample:
  "fst (fetch_historical_data (heal_env (Http_Response 500 Not_Json)) ''SAIL''
         (loaded_world [nse_item ''SAIL-EQ'' ''2963''] 0 100000)) = Inr (Inr coerced_example) \<and>
   trace (snd (fetch_historical_data (heal_env (Http_Response 500 Not_Json)) ''SAIL''
         (loaded_world [nse_item ''SAIL-EQ'' ''2963''] 0 100000))) =
     [Request (Some ''2963''), Download, Download, Sleep 2, Request (Some ''2963'')] \<and>
   count_downloads (snd (fetch_historical_data (heal_env (Http_Response 500 Not_Json)) ''SAIL''
         (loaded_world [nse_item ''SAIL-EQ'' ''2963''] 0 100000))) = 2 \<and>
   fst (fetch_historical_data (heal_env (Http_Response 200 Not_Json)) ''SAIL''
         (loaded_world [nse_item ''SAIL-EQ'' ''2963''] 0 100)) = Inr (Inr coerced_example) \<and>
   trace (snd (fetch_historical_data (heal_env (Http_Response 200 Not_Json)) ''SAIL''
         (loaded_world [nse_item ''SAIL-EQ'' ''2963''] 0 100))) =
     [Request (Some ''2963''), Download, Sleep 2, Request (Some ''2963'')]"
proof -
  let ?tok = "Some ''2963''"
  have first: "fst (fetch_historical_data (heal_env (Http_Response 500 Not_Json)) ''SAIL''
         (loaded_world [nse_item ''SAIL-EQ'' ''2963''] 0 100000)) = Inr (Inr coerced_example) \<and>
     trace (snd (fetch_historical_data (heal_env (Http_Response 500 Not_Json)) ''SAIL''
         (loaded_world [nse_item ''SAIL-EQ'' ''2963''] 0 100000))) =
       [Request (Some ''2963''), Download, Download, Sleep 2, Request (Some ''2963'')]"
  proof -
    let ?w = "loaded_world [nse_item ''SAIL-EQ'' ''2963''] 0 100000"
    let ?ev = "heal_env (Http_Response 500 Not_Json)"
    let ?w1 = "log_event (Request ?tok) ?w"
    let ?w2 = "log_event Download ?w1"
    let ?w3 = "log_event Download ?w2"
    let ?w4 = "?w3\<lparr>token_map := Some [''SAIL'' \<mapsto> nse_item ''SAIL-EQ'' ''2963'']\<rparr>"
    have g: "get_token ?ev ''SAIL'' ?w = (Inr ?tok, ?w)"
      by (rule get_token_loaded)
    have d: "download_scrip_master ?ev ?w1 = (Inr (), ?w2)"
      by (simp add: download_scrip_master_def Let_def heal_env_def)
    have l: "load_scrip_master ?ev ?w2 = (Inr (), ?w4)"
      by (simp add: load_scrip_master_def download_scrip_master_def Let_def heal_env_def
          log_event_def loaded_world_def build_token_map_SAIL)
    have g': "get_token ?ev ''SAIL'' ?w4 = (Inr ?tok, ?w4)"
      by (simp add: get_token_def lookup_token_SAIL)
    have c0: "count_requests ?w = 0"
      by (simp add: count_requests_def loaded_world_def)
    have cl: "classify (upstream ?ev (count_requests ?w)) = Invalid_Identifier"
      by (simp add: c0 heal_env_def classify_examples)
    have t0: "try_body ?ev ''SAIL'' 0 ?tok ?w = (Inr (Continue ?tok), sleep 2 ?w4)"
      by (simp add: try_body_invalid_identifier[OF cl] d l g')
    have t1: "try_body ?ev ''SAIL'' (Suc 0) ?tok (sleep 2 ?w4) =
        (Inr (Return (Inr coerced_example)), log_event (Request ?tok) (sleep 2 ?w4))"
      by (rule try_body_success_response) (simp add: c0 heal_env_def)
    have r: "retry_loop ?ev ''SAIL'' 0 ?tok ?w =
        (Inr coerced_example, log_event (Request ?tok) (sleep 2 ?w4))"
      by (subst retry_loop.simps, simp add: t0, subst retry_loop.simps, simp add: t1)
    have f: "fetch_historical_data ?ev ''SAIL'' ?w =
        (Inr (Inr coerced_example), log_event (Request ?tok) (sleep 2 ?w4))"
      by (simp add: fetch_historical_data_def g r)
    show ?thesis
      by (simp add: f) (simp add: log_event_def sleep_def loaded_world_def)
  qed
  have second: "fst (fetch_historical_data (heal_env (Http_Response 200 Not_Json)) ''SAIL''
         (loaded_world [nse_item ''SAIL-EQ'' ''2963''] 0 100)) = Inr (Inr coerced_example) \<and>
     trace (snd (fetch_historical_data (heal_env (Http_Response 200 Not_Json)) ''SAIL''
         (loaded_world [nse_item ''SAIL-EQ'' ''2963''] 0 100))) =
       [Request (Some ''2963''), Download, Sleep 2, Request (Some ''2963'')]"
  proof -
    let ?w = "loaded_world [nse_item ''SAIL-EQ'' ''2963''] 0 100"
    let ?ev = "heal_env (Http_Response 200 Not_Json)"
    let ?w1 = "log_event (Request ?tok) ?w"
    let ?w2 = "(log_event Download ?w1)\<lparr>scrip_file := Some (100, Not_Json)\<rparr>"
    have g: "get_token ?ev ''SAIL'' ?w = (Inr ?tok, ?w)"
      by (rule get_token_loaded)
    have d: "download_scrip_master ?ev ?w1 = (Inr (), ?w2)"
      by (simp add: download_scrip_master_def Let_def heal_env_def)
         (simp add: log_event_def loaded_world_def)
    have l: "load_scrip_master ?ev ?w2 = (Inl (ValueError ''JSONDecodeError''), ?w2)"
      by (simp add: load_scrip_master_def Let_def log_event_def loaded_world_def)
    have c0: "count_requests ?w = 0"
      by (simp add: count_requests_def loaded_world_def)
    have cl: "classify (upstream ?ev (count_requests ?w)) = Invalid_Identifier"
      by (simp add: c0 heal_env_def classify_examples)
    have t0: "try_body ?ev ''SAIL'' 0 ?tok ?w = (Inl (ValueError ''JSONDecodeError''), ?w2)"
      by (simp add: try_body_invalid_identifier[OF cl] d l)
    have t1: "try_body ?ev ''SAIL'' (Suc 0) ?tok (sleep 2 ?w2) =
        (Inr (Return (Inr coerced_example)), log_event (Request ?tok) (sleep 2 ?w2))"
      by (rule try_body_success_response) (simp add: c0 heal_env_def)
    have r: "retry_loop ?ev ''SAIL'' 0 ?tok ?w =
        (Inr coerced_example, log_event (Request ?tok) (sleep 2 ?w2))"
      by (subst retry_loop.simps, simp add: t0 Let_def, subst retry_loop.simps, simp add: t1)
    have f: "fetch_historical_data ?ev ''SAIL'' ?w =
        (Inr (Inr coerced_example), log_event (Request ?tok) (sleep 2 ?w2))"
      by (simp add: fetch_historical_data_def g r)
    show ?thesis
      by (simp add: f) (simp add: log_event_def sleep_def loaded_world_def)
  qed
  from first second show ?thesis
    by (simp add: count_downloads_def)
qed

section \<open>Properties of the batch loops\<close>

lemma fetch_success:
  assumes "token_map w = Some [''SAIL'' \<mapsto> nse_item ''SAIL-EQ'' ''2963'']"
  shows "fetch_historical_data success_env ''SAIL'' w =
     (Inr (Inr coerced_example), log_event (Request (Some ''2963'')) w)"
proof -
  have g: "get_token success_env ''SAIL'' w = (Inr (Some ''2963''), w)"
    using assms by (simp add: get_token_def lookup_token_SAIL)
  have t: "try_body success_env ''SAIL'' 0 (Some ''2963'') w =
      (Inr (Return (Inr coerced_example)), log_event (Request (Some ''2963'')) w)"
    by (rule try_body_success_response) (simp add: success_env_def)
  have r: "retry_loop success_env ''SAIL'' 0 (Some ''2963'') w =
      (Inr coerced_example, log_event (Request (Some ''2963'')) w)"
    by (subst retry_loop.simps) (simp add: t)
  show ?thesis
    by (simp add: fetch_historical_data_def g r)
qed

lemma validate_short:
  "validate_setup row (calculate_indicators ewm (Some coerced_example)) =
     Inr (Invalid Insufficient_Data)"
  by (simp add: calculate_indicators_def validate_setup_def coerced_example_def)

text \<open>
  C2 fails on \<^verbatim>\<open>backend/main.py\<close>: a candidate whose series is fetched and whom the validator
  rejects (here: one bar, Insufficient Data) leaves two records in \<^verbatim>\<open>rejected_trades\<close>, since
  the record is appended twice. The loop of \<^verbatim>\<open>app.py\<close> leaves one.
\<close>

theorem rejection_appended_twice_in_event_generator:
  "event_generator ewm success_env ''2026-01-01'' [mk_signal (Iso_Z 1) True True]
     (empty_batch (loaded_world [nse_item ''SAIL-EQ'' ''2963''] 0 100)) =
   Completed
     \<lparr>valid_trades = [],
      rejected_trades =
        [\<lparr>rej_symbol = ''SAIL'', rej_reason = Verdict Insufficient_Data\<rparr>,
         \<lparr>rej_symbol = ''SAIL'', rej_reason = Verdict Insufficient_Data\<rparr>],
      client = loaded_world [nse_item ''SAIL-EQ'' ''2963''] 0 100
        \<lparr>trace := [Request (Some ''2963'')]\<rparr>\<rparr> \<and>
   app_batch_loop ewm success_env ''2026-01-01'' [mk_signal (Iso_Z 1) True True]
     (empty_batch (loaded_world [nse_item ''SAIL-EQ'' ''2963''] 0 100)) =
   Completed
     \<lparr>valid_trades = [],
      rejected_trades = [\<lparr>rej_symbol = ''SAIL'', rej_reason = Verdict Insufficient_Data\<rparr>],
      client = sleep 1 (loaded_world [nse_item ''SAIL-EQ'' ''2963''] 0 100
        \<lparr>trace := [Request (Some ''2963'')]\<rparr>)\<rparr>"
proof -
  let ?w = "loaded_world [nse_item ''SAIL-EQ'' ''2963''] 0 100"
  have f: "fetch_historical_data success_env ''SAIL'' ?w =
     (Inr (Inr coerced_example), ?w\<lparr>trace := [Request (Some ''2963'')]\<rparr>)"
    using fetch_success[of ?w]
    by (simp add: loaded_world_def log_event_def build_token_map_SAIL)
  have t: "token_map ?w = Some [''SAIL'' \<mapsto> nse_item ''SAIL-EQ'' ''2963'']"
    by (simp add: loaded_world_def build_token_map_SAIL)
  have c: "client (empty_batch ?w) = ?w" "(empty_batch ?w)\<lparr>client := ?w\<rparr> = empty_batch ?w"
    by (simp_all add: empty_batch_def)
  show ?thesis
    by (simp add: event_generator_def t c)
       (simp add: main_candidate_def app_candidate_def empty_batch_def strptime_def f
        validate_short mk_signal_def)
qed

text \<open>
  C5 fails on \<^verbatim>\<open>app.py\<close>: its loop has no handler, so a candidate whose date does not match
  the format ends the run with the exception, without a record, and the next candidate is
  never processed. The generator of \<^verbatim>\<open>backend/main.py\<close> records the error and goes on.
\<close>

theorem app_loop_aborts_on_candidate_exception:
  "app_batch_loop ewm success_env ''2026-01-01''
     [mk_signal (Other_Format 1) True True, mk_signal (Iso_Z 1) True True]
     (empty_batch (loaded_world [nse_item ''SAIL-EQ'' ''2963''] 0 100)) =
   Aborted (ValueError ''time data does not match format'')
     (empty_batch (loaded_world [nse_item ''SAIL-EQ'' ''2963''] 0 100)) \<and>
   event_generator ewm success_env ''2026-01-01''
     [mk_signal (Other_Format 1) True True, mk_signal (Iso_Z 1) True True]
     (empty_batch (loaded_world [nse_item ''SAIL-EQ'' ''2963''] 0 100)) =
   Completed
     \<lparr>valid_trades = [],
      rejected_trades =
        [\<lparr>rej_symbol = ''SAIL'',
          rej_reason = Error (ValueError ''time data does not match format'')\<rparr>,
         \<lparr>rej_symbol = ''SAIL'', rej_reason = Verdict Insufficient_Data\<rparr>,
         \<lparr>rej_symbol = ''SAIL'', rej_reason = Verdict Insufficient_Data\<rparr>],
      client = loaded_world [nse_item ''SAIL-EQ'' ''2963''] 0 100
        \<lparr>trace := [Request (Some ''2963'')]\<rparr>\<rparr>"
proof -
  let ?w = "loaded_world [nse_item ''SAIL-EQ'' ''2963''] 0 100"
  have f: "fetch_historical_data success_env ''SAIL'' ?w =
     (Inr (Inr coerced_example), ?w\<lparr>trace := [Request (Some ''2963'')]\<rparr>)"
    using fetch_success[of ?w]
    by (simp add: loaded_world_def log_event_def build_token_map_SAIL)
  have t: "token_map ?w = Some [''SAIL'' \<mapsto> nse_item ''SAIL-EQ'' ''2963'']"
    by (simp add: loaded_world_def build_token_map_SAIL)
  have c: "client (empty_batch ?w) = ?w" "(empty_batch ?w)\<lparr>client := ?w\<rparr> = empty_batch ?w"
    by (simp_all add: empty_batch_def)
  show ?thesis
    by (simp add: event_generator_def t c)
       (simp add: main_candidate_def app_candidate_def empty_batch_def strptime_def f
        validate_short mk_signal_def)
qed

subsection \<open>What the two loops do in general\<close>

text \<open>
  The loop of \<^verbatim>\<open>backend/main.py\<close> runs to the end whenever every row names its symbol,
  and leaves one or two records per candidate. The loop of \<^verbatim>\<open>app.py\<close>, when it runs to the
  end, leaves exactly one record per candidate.
\<close>

lemma event_generator_loop_completes:
  "\<forall>row\<in>set rows. tradingsymbol row \<noteq> None \<Longrightarrow>
   \<exists>b'. event_generator_loop ewm ev d rows b = Completed b'"
  by (induction rows arbitrary: b) (auto split: option.splits prod.splits)

lemma app_candidate_one_record:
  "app_candidate ewm ev d symb row b = (None, b1) \<Longrightarrow> records b1 = Suc (records b)"
  by (auto simp add: app_candidate_def records_def
      split: sum.splits prod.splits verdict.splits)

lemma app_batch_loop_one_record_each:
  "app_batch_loop ewm ev d rows b = Completed b' \<Longrightarrow> records b' = records b + length rows"
proof (induction rows arbitrary: b)
  case Nil
  then show ?case by simp
next
  case (Cons row rows)
  then show ?case
    by (auto split: option.splits prod.splits dest!: app_candidate_one_record)
qed

lemma main_candidate_records:
  "main_candidate ewm ev d symb row b = (r, b1) \<Longrightarrow>
   (r = None \<longrightarrow> Suc (records b) \<le> records b1 \<and> records b1 \<le> Suc (Suc (records b))) \<and>
   (r \<noteq> None \<longrightarrow> records b1 = records b)"
  by (auto simp add: main_candidate_def records_def
      split: sum.splits prod.splits verdict.splits)

lemma event_generator_loop_one_or_two_records_each:
  "event_generator_loop ewm ev d rows b = Completed b' \<Longrightarrow>
   records b + length rows \<le> records b' \<and> records b' \<le> records b + 2 * length rows"
proof (induction rows arbitrary: b)
  case Nil
  then show ?case by simp
next
  case (Cons row rows)
  then obtain symb where s: "tradingsymbol row = Some symb"
    by (auto split: option.splits)
  obtain r b1 where m: "main_candidate ewm ev d symb row b = (r, b1)"
    by (cases "main_candidate ewm ev d symb row b")
  show ?case
  proof (cases r)
    case None
    with Cons.prems s m have "event_generator_loop ewm ev d rows b1 = Completed b'" by simp
    from Cons.IH[OF this] main_candidate_records[OF m] None show ?thesis by simp
  next
    case (Some e)
    let ?b2 = "b1\<lparr>rejected_trades := rejected_trades b1 @ [\<lparr>rej_symbol = symb, rej_reason = Error e\<rparr>]\<rparr>"
    from Cons.prems s m Some have "event_generator_loop ewm ev d rows ?b2 = Completed b'" by simp
    from Cons.IH[OF this] main_candidate_records[OF m] Some show ?thesis
      by (simp add: records_def)
  qed
qed

text \<open>
  With the table loaded and a signal to process, the two entry points are their loops.
\<close>

lemma event_generator_loaded:
  assumes "token_map (client b) = Some m" and "rows \<noteq> []"
  shows "event_generator ewm ev d rows b = event_generator_loop ewm ev d rows b"
  using assms by (simp add: event_generator_def)

lemma app_script_loaded:
  assumes "token_map (client b) = Some m" and "rows \<noteq> []"
  shows "app_script ewm ev d rows b = app_batch_loop ewm ev d rows b"
  using assms by (simp add: app_script_def)

end
